theory Spec2Isabelle
  imports Complex_Main "HOL-Library.AList"
begin

section \<open>Data model of main.py\<close>

text \<open>
  The module declares three request schemas (\<open>Item\<close>, \<open>User\<close>, and the unused
  \<open>ItemWithDate\<close>), the enum \<open>ModelName\<close>, a module-level list \<open>fake_items_db\<close>
  and fourteen route handlers. A Python \<open>float\<close> field is a \<open>real\<close> here: the
  handlers only test such a field for truth (it is false exactly at zero) and add two of
  them. The sum \<open>+\<close> below is the exact one; the rounding of the machine addition,
  infinities and NaN are outside the model. An optional field (\<open>Union[T, None]\<close>)
  is an \<open>option\<close>.
\<close>

datatype ModelName = alexnet | resnet | lenet

fun ModelName_value :: "ModelName \<Rightarrow> string" where
  "ModelName_value alexnet = ''alexnet''"
| "ModelName_value resnet = ''resnet''"
| "ModelName_value lenet = ''lenet''"

record Item =
  name :: string
  description :: "string option"
  price :: real
  tax :: "real option"

record User =
  username :: string
  full_name :: "string option"

text \<open>
  JSON-compatible Python values: \<open>None\<close>, \<open>bool\<close>, \<open>int\<close>, \<open>float\<close>, \<open>str\<close>,
  \<open>list\<close> and \<open>dict\<close> with string keys. A dict is an association list in insertion
  order, with distinct keys.
\<close>

datatype json =
    JNull
  | JBool bool
  | JInt int
  | JFloat real
  | JStr string
  | JList "json list"
  | JDict "(string \<times> json) list"

text \<open>
  What a handler may return: JSON-compatible data, a model object, an enum member, or a
  list or dict holding such objects.
\<close>

datatype pyval =
    Json json
  | ItemObj Item
  | UserObj User
  | ModelNameObj ModelName
  | ObjList "pyval list"
  | ObjDict "(string \<times> pyval) list"

datatype error =
    ValidationError
  | HTTPException nat string
  | TypeError
  | IndexError

subsection \<open>Python's \<open>==\<close> and \<open>in\<close> on JSON-compatible values\<close>

text \<open>
  \<open>bool\<close>, \<open>int\<close> and \<open>float\<close> compare by numeric value (\<open>True == 1\<close>,
  \<open>1 == 1.0\<close>); strings with strings; lists element by element; dicts when they have
  the same keys with equal values, whatever the order. Values of unrelated types are
  never equal: in particular an \<open>int\<close> is never equal to a \<open>dict\<close>.
\<close>

fun num_of :: "json \<Rightarrow> real option" where
  "num_of (JBool b) = Some (if b then 1 else 0)"
| "num_of (JInt i) = Some (of_int i)"
| "num_of (JFloat r) = Some r"
| "num_of _ = None"

function py_eq :: "json \<Rightarrow> json \<Rightarrow> bool"
  and py_eq_list :: "json list \<Rightarrow> json list \<Rightarrow> bool"
  and py_eq_items :: "(string \<times> json) list \<Rightarrow> (string \<times> json) list \<Rightarrow> bool" where
  "py_eq JNull b = (b = JNull)"
| "py_eq (JBool x) b = (num_of b = Some (if x then 1 else 0))"
| "py_eq (JInt i) b = (num_of b = Some (of_int i))"
| "py_eq (JFloat r) b = (num_of b = Some r)"
| "py_eq (JStr s) b = (b = JStr s)"
| "py_eq (JList xs) b = (case b of JList ys \<Rightarrow> py_eq_list xs ys | _ \<Rightarrow> False)"
| "py_eq (JDict kvs) b =
     (case b of JDict kws \<Rightarrow> length kvs = length kws \<and> py_eq_items kvs kws | _ \<Rightarrow> False)"
| "py_eq_list [] ys = (ys = [])"
| "py_eq_list (x # xs) ys =
     (case ys of [] \<Rightarrow> False | y # ys' \<Rightarrow> py_eq x y \<and> py_eq_list xs ys')"
| "py_eq_items [] kws = True"
| "py_eq_items ((k, v) # kvs) kws =
     (case map_of kws k of None \<Rightarrow> False | Some w \<Rightarrow> py_eq v w \<and> py_eq_items kvs kws)"
  by pat_completeness auto
termination
  by (relation "measure (\<lambda>x. case x of
          Inl (a, b) \<Rightarrow> size a
        | Inr (Inl (xs, ys)) \<Rightarrow> size_list size xs
        | Inr (Inr (kvs, kws)) \<Rightarrow> size_list (size_prod (\<lambda>_. 0) size) kvs)") auto

text \<open>\<open>x in xs\<close> for a list \<open>xs\<close>: some element is equal to \<open>x\<close>.\<close>

definition py_in :: "json \<Rightarrow> json list \<Rightarrow> bool" where
  "py_in x xs = list_ex (\<lambda>e. py_eq e x) xs"

subsection \<open>Python's \<open>xs[key] = v\<close> on a list\<close>

text \<open>
  A list accepts an integer index (a negative one counts from the end, one out of range
  raises \<open>IndexError\<close>); a string index raises \<open>TypeError\<close>.
\<close>

datatype index = IdxInt int | IdxStr string

fun list_setitem :: "'a list \<Rightarrow> index \<Rightarrow> 'a \<Rightarrow> error + 'a list" where
  "list_setitem xs (IdxStr s) v = Inl TypeError"
| "list_setitem xs (IdxInt i) v =
     (if 0 \<le> i \<and> i < int (length xs)
      then Inr (xs[nat i := v])
      else if - int (length xs) \<le> i \<and> i < 0
      then Inr (xs[nat (int (length xs) + i) := v])
      else Inl IndexError)"

subsection \<open>The placeholder store and the encoders\<close>

definition fake_items_db :: "json list" where
  "fake_items_db =
     [JDict [(''item_id'', JInt 0), (''item_name'', JStr ''Fish'')],
      JDict [(''item_id'', JInt 1), (''item_name'', JStr ''Bear'')],
      JDict [(''item_id'', JInt 2), (''item_name'', JStr ''Bunny'')]]"

definition json_of_str_opt :: "string option \<Rightarrow> json" where
  "json_of_str_opt s = (case s of None \<Rightarrow> JNull | Some t \<Rightarrow> JStr t)"

definition json_of_float_opt :: "real option \<Rightarrow> json" where
  "json_of_float_opt x = (case x of None \<Rightarrow> JNull | Some r \<Rightarrow> JFloat r)"

text \<open>\<open>item.dict()\<close>: the fields in declaration order.\<close>

definition Item_dict :: "Item \<Rightarrow> (string \<times> json) list" where
  "Item_dict item =
     [(''name'', JStr (name item)),
      (''description'', json_of_str_opt (description item)),
      (''price'', JFloat (price item)),
      (''tax'', json_of_float_opt (tax item))]"

text \<open>\<open>jsonable_encoder(item)\<close> on an \<open>Item\<close>: the same fields as a JSON-safe dict.\<close>

definition jsonable_encoder :: "Item \<Rightarrow> json" where
  "jsonable_encoder item = JDict (Item_dict item)"

section \<open>The handlers\<close>

text \<open>
  Python rebinds the names \<open>read_items\<close> and \<open>read_item\<close> several times; each
  decorator registers the function it is applied to, so all of them are handlers. The
  later ones carry a suffix here.
\<close>

definition short_description :: string where
  "short_description =
     ''short is boolean and accepts '?short=1', True, true, On, on, Yes, yes as True and short=0, False, false, Off, off, No, no as False''"

text \<open>\<open>GET /items/\<close>, first registration.\<close>

definition read_items :: json where
  "read_items = JList [JDict [(''name'', JStr ''Katana'')]]"

text \<open>
  \<open>POST /items/\<close>, first registration. \<open>if item.tax:\<close> is false when \<open>tax\<close> is
  \<open>None\<close> and when it is \<open>0.0\<close>.
\<close>

definition create_items :: "Item \<Rightarrow> (string \<times> json) list" where
  "create_items item =
     (let item_dict = Item_dict item
      in case tax item of
           None \<Rightarrow> item_dict
         | Some t \<Rightarrow>
             if t \<noteq> 0
             then (let price_with_tax = price item + t
                   in AList.update ''price_with_tax'' (JFloat price_with_tax) item_dict)
             else item_dict)"

text \<open>\<open>POST /items/\<close>, second registration.\<close>

definition create_an_item :: "Item \<Rightarrow> string \<Rightarrow> Item" where
  "create_an_item item response_description = item"

text \<open>\<open>POST /items_return_type/\<close>.\<close>

definition create_item :: "Item \<Rightarrow> Item" where
  "create_item item = item"

text \<open>\<open>GET /items_return_type/\<close>.\<close>

definition read_items_return_type :: "Item list" where
  "read_items_return_type =
     [\<lparr>name = ''Portal Gun'', description = None, price = 42, tax = None\<rparr>,
      \<lparr>name = ''Plumbus'', description = None, price = 32, tax = None\<rparr>]"

text \<open>
  \<open>PUT /items/{id}\<close>: the only handler that assigns into \<open>fake_items_db\<close>. The path
  parameter \<open>id\<close> is a \<open>str\<close> and is used as the index as it is. The result is the
  error raised, or \<open>None\<close> with the new store.
\<close>

definition update_item_json :: "string \<Rightarrow> Item \<Rightarrow> json list \<Rightarrow> error + json list" where
  "update_item_json id' item db =
     (let json_compatible_item_data = jsonable_encoder item
      in list_setitem db (IdxStr id') json_compatible_item_data)"

text \<open>\<open>PUT /items/{item_id}\<close>.\<close>

definition update_item ::
  "int \<Rightarrow> Item \<Rightarrow> User \<Rightarrow> int \<Rightarrow> string option \<Rightarrow> (string \<times> pyval) list" where
  "update_item item_id item user importance q =
     (let results = [(''item_id'', Json (JInt item_id)), (''item'', ItemObj item),
                     (''user'', UserObj user), (''importance'', Json (JInt importance))]
      in case q of
           None \<Rightarrow> results
         | Some s \<Rightarrow> if s \<noteq> [] then AList.update ''q'' (Json (JStr s)) results else results)"

text \<open>\<open>GET /\<close>.\<close>

definition root :: "(string \<times> json) list" where
  "root = [(''message'', JStr ''hello World'')]"

text \<open>\<open>GET /items/\<close>, second registration (\<open>read_item\<close> with the query \<open>q\<close>).\<close>

definition read_item_by_query :: "string option \<Rightarrow> (string \<times> json) list" where
  "read_item_by_query q =
     (let results = [(''items'', JList [JDict [(''item_id'', JStr ''Foo'')],
                                        JDict [(''item_id'', JStr ''Bar'')]])]
      in case q of
           None \<Rightarrow> results
         | Some s \<Rightarrow> if s \<noteq> [] then AList.update ''q'' (JStr s) results else results)"

text \<open>\<open>GET /itemlist/\<close>.\<close>

definition read_item_list :: "string list option \<Rightarrow> (string \<times> json) list" where
  "read_item_list q =
     (let query_items = [(''q'', (case q of None \<Rightarrow> JNull | Some ss \<Rightarrow> JList (map JStr ss)))]
      in query_items)"

text \<open>\<open>GET /itemtitle/\<close>.\<close>

definition read_items_itemtitle :: "string option \<Rightarrow> (string \<times> json) list" where
  "read_items_itemtitle q =
     (let results = [(''items'', JList [JDict [(''item_id'', JStr ''Foo'')],
                                        JDict [(''item_id'', JStr ''Bar'')]])]
      in case q of
           None \<Rightarrow> results
         | Some s \<Rightarrow> if s \<noteq> [] then AList.update ''q'' (JStr s) results else results)"

text \<open>
  \<open>GET /items/{item_id}\<close>. The test \<open>item_id not in fake_items_db\<close> asks whether the
  integer is equal to one of the rows of the list.
\<close>

definition read_item ::
  "int \<Rightarrow> string option \<Rightarrow> bool \<Rightarrow> json list \<Rightarrow> error + (string \<times> json) list" where
  "read_item item_id q short db =
     (if \<not> py_in (JInt item_id) db
      then Inl (HTTPException 404 ''Item not found'')
      else
        (let item = [(''item_id'', JInt item_id)];
             item = (case q of
                       None \<Rightarrow> item
                     | Some s \<Rightarrow> if s \<noteq> [] then AList.update ''q'' (JStr s) item else item);
             item = (if \<not> short
                     then AList.update ''description'' (JStr short_description) item
                     else item)
         in Inr item))"

text \<open>\<open>GET /users/{user_id}/items/{item_id}\<close>.\<close>

definition read_user_item ::
  "int \<Rightarrow> string \<Rightarrow> string option \<Rightarrow> bool \<Rightarrow> (string \<times> json) list" where
  "read_user_item user_id item_id q short =
     (let item = [(''item_id'', JStr item_id), (''owner_id'', JInt user_id)];
          item = (case q of
                    None \<Rightarrow> item
                  | Some s \<Rightarrow> if s \<noteq> [] then AList.update ''q'' (JStr s) item else item);
          item = (if \<not> short
                  then AList.update ''description'' (JStr short_description) item
                  else item)
      in item)"

text \<open>\<open>GET /models/{model_name}\<close>.\<close>

definition get_model :: "ModelName \<Rightarrow> (string \<times> pyval) list" where
  "get_model model_name =
     (if model_name = alexnet
      then [(''model_name'', ModelNameObj model_name),
            (''message'', Json (JStr ''Deep Learning FTW!''))]
      else if ModelName_value model_name = ''lenet''
      then [(''model_name'', ModelNameObj model_name),
            (''message'', Json (JStr ''LeCNN all the images''))]
      else [(''model_name'', ModelNameObj model_name),
            (''message'', Json (JStr ''Have some residuals''))])"

section \<open>Declared parameter constraints\<close>

text \<open>
  The framework checks the constraints written in a handler's signature before it calls
  the handler, and answers with a validation error when one fails. Each function below
  is one route as registered: the declared constraint, then the handler.
\<close>

text \<open>
  \<open>ModelName(s)\<close>: the member whose value is \<open>s\<close>, looked up in declaration order.
\<close>

definition ModelName_of :: "string \<Rightarrow> ModelName option" where
  "ModelName_of s = find (\<lambda>m. ModelName_value m = s) [alexnet, resnet, lenet]"



text \<open>\<open>model_name: ModelName\<close>: the path segment must be the value of a member.\<close>

definition get_model_route :: "string \<Rightarrow> error + (string \<times> pyval) list" where
  "get_model_route s =
     (case ModelName_of s of
        None \<Rightarrow> Inl ValidationError
      | Some model_name \<Rightarrow> Inr (get_model model_name))"

section \<open>Handlers and the shared store\<close>

text \<open>
  One constructor per handler, holding its validated arguments. \<open>invoke\<close> runs the
  handler on the current \<open>fake_items_db\<close> and gives what it returns or raises, and the
  store afterwards.
\<close>

datatype handler_call =
    Root
  | ReadItems
  | CreateItems Item
  | CreateAnItem Item string
  | CreateItem Item
  | ReadItemsReturnType
  | UpdateItemJson string Item
  | UpdateItem int Item User int "string option"
  | ReadItemByQuery "string option"
  | ReadItemList "string list option"
  | ReadItemsItemtitle "string option"
  | ReadItem int "string option" bool
  | ReadUserItem int string "string option" bool
  | GetModel ModelName

fun invoke :: "handler_call \<Rightarrow> json list \<Rightarrow> (error + pyval) \<times> json list" where
  "invoke Root db = (Inr (Json (JDict root)), db)"
| "invoke ReadItems db = (Inr (Json read_items), db)"
| "invoke (CreateItems item) db = (Inr (Json (JDict (create_items item))), db)"
| "invoke (CreateAnItem item response_description) db =
     (Inr (ItemObj (create_an_item item response_description)), db)"
| "invoke (CreateItem item) db = (Inr (ItemObj (create_item item)), db)"
| "invoke ReadItemsReturnType db = (Inr (ObjList (map ItemObj read_items_return_type)), db)"
| "invoke (UpdateItemJson id' item) db =
     (case update_item_json id' item db of
        Inl e \<Rightarrow> (Inl e, db)
      | Inr db' \<Rightarrow> (Inr (Json JNull), db'))"
| "invoke (UpdateItem item_id item user importance q) db =
     (Inr (ObjDict (update_item item_id item user importance q)), db)"
| "invoke (ReadItemByQuery q) db = (Inr (Json (JDict (read_item_by_query q))), db)"
| "invoke (ReadItemList q) db = (Inr (Json (JDict (read_item_list q))), db)"
| "invoke (ReadItemsItemtitle q) db = (Inr (Json (JDict (read_items_itemtitle q))), db)"
| "invoke (ReadItem item_id q short) db =
     (case read_item item_id q short db of
        Inl e \<Rightarrow> (Inl e, db)
      | Inr item \<Rightarrow> (Inr (Json (JDict item)), db))"
| "invoke (ReadUserItem user_id item_id q short) db =
     (Inr (Json (JDict (read_user_item user_id item_id q short))), db)"
| "invoke (GetModel model_name) db = (Inr (ObjDict (get_model model_name)), db)"


text \<open>
  The shape every row of the store has: the seed rows are dicts, and so is whatever
  \<open>jsonable_encoder\<close> gives for an \<open>Item\<close>.
\<close>

fun is_row :: "json \<Rightarrow> bool" where
  "is_row (JDict kvs) = True"
| "is_row _ = False"

definition store_rows :: "json list \<Rightarrow> bool" where
  "store_rows db = list_all is_row db"

text \<open>The stores the program can be in: the seed, and what a handler leaves behind.\<close>

inductive reachable :: "json list \<Rightarrow> bool" where
  seed: "reachable fake_items_db"
| step: "reachable db \<Longrightarrow> reachable (snd (invoke c db))"

section \<open>Properties\<close>

subsection \<open>Helper facts\<close>

lemma py_eq_row_int: "is_row e \<Longrightarrow> \<not> py_eq e (JInt i)"
  by (cases e) simp_all

lemma py_in_rows: "store_rows db \<Longrightarrow> \<not> py_in (JInt i) db"
  by (induction db) (auto simp: py_in_def store_rows_def py_eq_row_int)

lemma store_rows_seed: "store_rows fake_items_db"
  by (simp add: store_rows_def fake_items_db_def)

lemma read_item_rows:
  "store_rows db \<Longrightarrow> read_item item_id q short db = Inl (HTTPException 404 ''Item not found'')"
  by (simp add: read_item_def py_in_rows)

lemma update_item_json_raises: "update_item_json id' item db = Inl TypeError"
  by (simp add: update_item_json_def)

lemma invoke_store: "snd (invoke c db) = db"
  by (cases c) (simp_all add: update_item_json_raises split: sum.splits)

lemma reachable_seed: "reachable db \<Longrightarrow> db = fake_items_db"
  by (induction rule: reachable.induct) (simp_all add: invoke_store)

lemma reachable_rows: "reachable db \<Longrightarrow> store_rows db"
  using reachable_seed [of db] store_rows_seed by auto

lemma map_of_Item_dict_price_with_tax: "map_of (Item_dict item) ''price_with_tax'' = None"
  by (simp add: Item_dict_def)


lemma create_items_falsy:
  "tax item = None \<or> tax item = Some 0 \<Longrightarrow> create_items item = Item_dict item"
  by (auto simp: create_items_def)

lemma ModelName_of_cases:
  "ModelName_of s =
     (if s = ''alexnet'' then Some alexnet
      else if s = ''resnet'' then Some resnet
      else if s = ''lenet'' then Some lenet
      else None)"
  by (simp add: ModelName_of_def)

subsection \<open>GET /items/{item_id}\<close>

text \<open>
  C1 (the code departs from the claim). The claim: \<open>read_item\<close> raises the 404 exactly
  when \<open>item_id\<close> is not a key of the seeded store, and for the seeded ids 0, 1, 2 it
  returns the item mapping. The code at the seeded id 0, on the seeded store, raises the
  404: \<open>item_id not in fake_items_db\<close> compares the integer with whole rows, and no
  row is equal to an integer (\<open>read_item_rows\<close> gives the same for every id).
\<close>

theorem read_item_seeded_id_not_found:
  "read_item 0 None False fake_items_db = Inl (HTTPException 404 ''Item not found'')"
  by (simp add: read_item_rows store_rows_seed)

subsection \<open>POST /items/\<close>




text \<open>
  C10: for every \<open>Item\<close> whose \<open>tax\<close> is present and equal to 0, \<open>create_items\<close>
  leaves \<open>price_with_tax\<close> out of its response and returns the item's fields alone:
  \<open>if item.tax:\<close> tests truth, and 0 is false.
\<close>

theorem create_items_tax_zero:
  "tax item = Some 0 \<Longrightarrow>
     create_items item = Item_dict item \<and> map_of (create_items item) ''price_with_tax'' = None"
  by (simp add: create_items_falsy map_of_Item_dict_price_with_tax)

theorem create_items_tax_zero_witness:
  "create_items \<lparr>name = ''Foo'', description = None, price = 35, tax = Some 0\<rparr> =
     [(''name'', JStr ''Foo''), (''description'', JNull), (''price'', JFloat 35),
      (''tax'', JFloat 0)]"
  using create_items_tax_zero
          [of "\<lparr>name = ''Foo'', description = None, price = 35, tax = Some 0\<rparr>"]
  by (simp add: Item_dict_def json_of_str_opt_def json_of_float_opt_def)

subsection \<open>PUT /items/{id}\<close>

text \<open>
  C6 (the code departs from the claim). The claim: for every \<open>Item\<close> and every path
  string \<open>id\<close>, \<open>update_item_json\<close> writes the encoded item into \<open>fake_items_db\<close>
  at \<open>id\<close> and completes without an unhandled error. The code at \<open>id = "1"\<close>, on
  the seeded store, raises \<open>TypeError\<close> and leaves the store as it was: the store is
  a list and the index is a string (\<open>update_item_json_raises\<close> gives the same for
  every input).
\<close>

theorem update_item_json_type_error:
  "update_item_json ''1'' \<lparr>name = ''Foo'', description = None, price = 35.4, tax = None\<rparr>
     fake_items_db = Inl TypeError \<and>
   invoke (UpdateItemJson ''1'' \<lparr>name = ''Foo'', description = None, price = 35.4, tax = None\<rparr>)
     fake_items_db = (Inl TypeError, fake_items_db)"
  by (simp add: update_item_json_raises)

subsection \<open>PUT /items/{item_id}\<close>



subsection \<open>GET /items/\<close>



subsection \<open>GET /models/{model_name}\<close>

text \<open>
  C7: the path segment \<open>alexnet\<close> gives the message "Deep Learning FTW!", \<open>lenet\<close>
  gives "LeCNN all the images", \<open>resnet\<close> gives "Have some residuals", and any
  segment that is not the value of a \<open>ModelName\<close> member is answered with a validation
  error without calling the handler. The handler tests for \<open>alexnet\<close> first, then for
  \<open>lenet\<close>, and takes the last branch for what remains, which is \<open>resnet\<close>.
\<close>

theorem get_model_route_messages:
  "get_model_route ''alexnet'' =
     Inr [(''model_name'', ModelNameObj alexnet),
          (''message'', Json (JStr ''Deep Learning FTW!''))] \<and>
   get_model_route ''lenet'' =
     Inr [(''model_name'', ModelNameObj lenet),
          (''message'', Json (JStr ''LeCNN all the images''))] \<and>
   get_model_route ''resnet'' =
     Inr [(''model_name'', ModelNameObj resnet),
          (''message'', Json (JStr ''Have some residuals''))] \<and>
   (s \<notin> {''alexnet'', ''resnet'', ''lenet''} \<longrightarrow> get_model_route s = Inl ValidationError) \<and>
   get_model m =
     [(''model_name'', ModelNameObj m),
      (''message'', Json (JStr (if m = alexnet then ''Deep Learning FTW!''
                                else if m = lenet then ''LeCNN all the images''
                                else ''Have some residuals'')))]"
proof (intro conjI impI)
  show "get_model_route ''alexnet'' =
     Inr [(''model_name'', ModelNameObj alexnet),
          (''message'', Json (JStr ''Deep Learning FTW!''))]"
    by (simp add: get_model_route_def ModelName_of_cases get_model_def)
  show "get_model_route ''lenet'' =
     Inr [(''model_name'', ModelNameObj lenet),
          (''message'', Json (JStr ''LeCNN all the images''))]"
    by (simp add: get_model_route_def ModelName_of_cases get_model_def)
  show "get_model_route ''resnet'' =
     Inr [(''model_name'', ModelNameObj resnet),
          (''message'', Json (JStr ''Have some residuals''))]"
    by (simp add: get_model_route_def ModelName_of_cases get_model_def)
  show "get_model m =
     [(''model_name'', ModelNameObj m),
      (''message'', Json (JStr (if m = alexnet then ''Deep Learning FTW!''
                                else if m = lenet then ''LeCNN all the images''
                                else ''Have some residuals'')))]"
    by (cases m) (simp_all add: get_model_def)
next
  assume "s \<notin> {''alexnet'', ''resnet'', ''lenet''}"
  then have "ModelName_of s = None"
    by (simp add: ModelName_of_cases)
  then show "get_model_route s = Inl ValidationError"
    by (simp add: get_model_route_def)
qed

theorem get_model_route_messages_witness:
  "get_model_route ''vgg'' = Inl ValidationError \<and>
   get_model_route ''AlexNet'' = Inl ValidationError"
proof -
  have a: "''vgg'' \<notin> {''alexnet'', ''resnet'', ''lenet''}"
    by simp
  have b: "''AlexNet'' \<notin> {''alexnet'', ''resnet'', ''lenet''}"
    by simp
  from a get_model_route_messages [of "''vgg''"]
  have "get_model_route ''vgg'' = Inl ValidationError"
    by blast
  moreover from b get_model_route_messages [of "''AlexNet''"]
  have "get_model_route ''AlexNet'' = Inl ValidationError"
    by blast
  ultimately show ?thesis
    by simp
qed

subsection \<open>The shared store\<close>



end
